theory Spec2Isabelle
  imports Complex_Main
begin

section \<open>The order processor (src/src/OrderProcessor.ts, src/common/types.ts)\<close>

text \<open>
  A shallow embedding of the class \<open>OrderProcessor\<close>. Modelling decisions:
  \<^item> a JavaScript \<open>number\<close> is a binary64 value, with \<open>NaN\<close> and the infinities, and every
    sum and product is rounded to the nearest such value;
  \<^item> an object of the class is a record of its fields, a method takes the record and
    returns the updated one;
  \<^item> the three injected services are records of functions over the state \<open>'w\<close> of the
    outside world, which every call may change. \<open>checkStock\<close> and \<open>charge\<close> resolve to
    a boolean and the two notifications complete; \<open>reduceStock\<close> either completes or
    rejects with an error value: it is the one call the class wraps in \<open>try\<close>/\<open>catch\<close>;
  \<^item> every call of a service and every line written to the console is recorded, in
    order, in a list of events that the method returns beside its result;
  \<^item> the awaited calls happen one after the other, so \<open>async\<close>/\<open>await\<close> is plain
    sequencing;
  \<^item> objects are values: the item pushed by \<open>addItem\<close> is a copy, not a reference that
    the caller or a service could still mutate.
\<close>

subsection \<open>Numbers\<close>

text \<open>
  A JavaScript \<open>number\<close> is an IEEE 754 binary64 value: \<open>NaN\<close>, one of the two infinities,
  or a finite value \<open>Finite r\<close>, given by the rational \<open>r\<close> it denotes. The two zeros are
  one value, \<open>Finite 0\<close>: the class never divides, and \<open><\<close>, \<open><=\<close>, \<open>>\<close> and \<open>===\<close> do not
  tell them apart. The type does not restrict \<open>r\<close> to the rationals that binary64 has:
  what holds for every \<open>r\<close> holds for those, and the results of \<open>+\<close> and \<open>*\<close> are among
  them, being results of the rounding \<open>fl\<close>.
\<close>

datatype number = NaN | PosInfinity | NegInfinity | Finite rat

definition pow2 :: "int \<Rightarrow> rat" where
  "pow2 e = (if 0 \<le> e then 2 ^ nat e else 1 / 2 ^ nat (- e))"

text \<open>The number of binary digits of a positive integer.\<close>

function bitlen :: "int \<Rightarrow> nat" where
  "bitlen n = (if n \<le> 0 then 0 else Suc (bitlen (n div 2)))"
  by pat_completeness auto
termination
  by (relation "measure nat") auto

declare bitlen.simps [simp del]

text \<open>
  For \<open>x > 0\<close>, \<open>ilog2 x\<close> is the exponent \<open>e\<close> with \<open>2^e \<le> x < 2^(e+1)\<close>: the difference
  \<open>k\<close> of the digit counts of numerator and denominator, or \<open>k - 1\<close>.
\<close>

definition ilog2 :: "rat \<Rightarrow> int" where
  "ilog2 x = (case quotient_of x of (p, q) \<Rightarrow>
     (let k = int (bitlen p) - int (bitlen q)
      in if pow2 k \<le> x then k else k - 1))"

definition roundTiesToEven :: "rat \<Rightarrow> int" where
  "roundTiesToEven x =
     (let f = \<lfloor>x\<rfloor>; d = x - of_int f
      in if d < 1 / 2 then f else if 1 / 2 < d then f + 1 else if even f then f else f + 1)"

text \<open>
  Rounding of an exact result to binary64, to nearest with ties to even. A value with
  exponent \<open>e\<close> is rounded to a multiple of \<open>2^(e - 52)\<close> (53 significant bits), and of
  \<open>2^(-1074)\<close> in the subnormal range. The result overflows to an infinity when the
  rounded magnitude reaches \<open>2^1024\<close>, which is when \<open>e\<close> is above 1023, or \<open>e\<close> is 1023 and
  the significand was rounded up to \<open>2^53\<close>.
\<close>

definition fl :: "rat \<Rightarrow> number" where
  "fl x =
     (if x = 0 then Finite 0
      else (let e = ilog2 \<bar>x\<bar>;
                q = max (e - 52) (- 1074);
                m = roundTiesToEven (x / pow2 q)
            in if 1023 < e \<or> (e = 1023 \<and> 2 ^ 53 \<le> \<bar>m\<bar>)
               then (if 0 < x then PosInfinity else NegInfinity)
               else Finite (of_int m * pow2 q)))"

text \<open>
  \<open>+\<close>, \<open>*\<close> and the comparisons of JavaScript. Every comparison with \<open>NaN\<close> is false, so
  \<open>\<not> x \<le> y\<close> does not give \<open>y < x\<close>.
\<close>

instantiation number :: "{zero, plus, times, ord}"
begin

definition zero_number :: number where
  "zero_number = Finite 0"

fun plus_number :: "number \<Rightarrow> number \<Rightarrow> number" where
  "plus_number NaN y = NaN"
| "plus_number x NaN = NaN"
| "plus_number (Finite a) (Finite b) = fl (a + b)"
| "plus_number PosInfinity NegInfinity = NaN"
| "plus_number NegInfinity PosInfinity = NaN"
| "plus_number PosInfinity y = PosInfinity"
| "plus_number NegInfinity y = NegInfinity"
| "plus_number (Finite a) y = y"

fun times_number :: "number \<Rightarrow> number \<Rightarrow> number" where
  "times_number NaN y = NaN"
| "times_number x NaN = NaN"
| "times_number (Finite a) (Finite b) = fl (a * b)"
| "times_number PosInfinity PosInfinity = PosInfinity"
| "times_number PosInfinity NegInfinity = NegInfinity"
| "times_number NegInfinity PosInfinity = NegInfinity"
| "times_number NegInfinity NegInfinity = PosInfinity"
| "times_number PosInfinity (Finite b) =
     (if b = 0 then NaN else if 0 < b then PosInfinity else NegInfinity)"
| "times_number NegInfinity (Finite b) =
     (if b = 0 then NaN else if 0 < b then NegInfinity else PosInfinity)"
| "times_number (Finite a) PosInfinity =
     (if a = 0 then NaN else if 0 < a then PosInfinity else NegInfinity)"
| "times_number (Finite a) NegInfinity =
     (if a = 0 then NaN else if 0 < a then NegInfinity else PosInfinity)"

fun less_eq_number :: "number \<Rightarrow> number \<Rightarrow> bool" where
  "less_eq_number NaN y = False"
| "less_eq_number x NaN = False"
| "less_eq_number (Finite a) (Finite b) = (a \<le> b)"
| "less_eq_number NegInfinity y = True"
| "less_eq_number x PosInfinity = True"
| "less_eq_number x y = False"

fun less_number :: "number \<Rightarrow> number \<Rightarrow> bool" where
  "less_number NaN y = False"
| "less_number x NaN = False"
| "less_number (Finite a) (Finite b) = (a < b)"
| "less_number PosInfinity y = False"
| "less_number x NegInfinity = False"
| "less_number x y = True"

instance ..

end

subsection \<open>Data (common/types.ts)\<close>

record IOrderItem =
  id' :: string
  name :: string
  price :: number
  quantity :: number

datatype PaymentStatus = pending | paid | failed

text \<open>
  The object literal passed to \<open>sendOrderConfirmation\<close>; its keys \<open>orderId\<close>, \<open>items\<close>,
  \<open>totalAmount\<close> and \<open>status\<close> carry the prefix \<open>details\<close> here, since two of them are
  also fields of the class.
\<close>

record OrderDetails =
  detailsOrderId :: string
  detailsItems :: "IOrderItem list"
  detailsTotalAmount :: number
  detailsStatus :: PaymentStatus

text \<open>A value thrown by a rejected \<open>reduceStock\<close>, such as \<open>new Error(message)\<close>.\<close>

datatype js_error = Error string

record 'w IInventoryService =
  checkStock :: "string \<Rightarrow> number \<Rightarrow> 'w \<Rightarrow> bool \<times> 'w"
  reduceStock :: "string \<Rightarrow> number \<Rightarrow> 'w \<Rightarrow> js_error option \<times> 'w"

record 'w IPaymentGateway =
  charge :: "number \<Rightarrow> string \<Rightarrow> string \<Rightarrow> 'w \<Rightarrow> bool \<times> 'w"

record 'w INotificationService =
  sendOrderConfirmation :: "string \<Rightarrow> OrderDetails \<Rightarrow> 'w \<Rightarrow> 'w"
  sendPaymentFailedNotification :: "string \<Rightarrow> string \<Rightarrow> 'w \<Rightarrow> 'w"

record 'w OrderProcessor =
  items :: "IOrderItem list"
  customerEmail :: string
  discountApplied :: bool
  paymentStatus :: PaymentStatus
  orderId :: string
  inventoryService :: "'w IInventoryService"
  paymentGateway :: "'w IPaymentGateway"
  notificationService :: "'w INotificationService"

subsection \<open>Observable events\<close>

text \<open>
  The console lines, by the template that produces them and the values interpolated
  into it (the texts themselves are Russian sentences):
  \<^item> \<open>InvalidItem name\<close>: the warning of \<open>addItem\<close> for a rejected item;
  \<^item> \<open>ItemNotFound itemId\<close>: the warning of \<open>removeItem\<close>;
  \<^item> \<open>OrderEmpty\<close>: the error of \<open>processOrder\<close> on an order without items;
  \<^item> \<open>OutOfStock name id\<close>: the error for the item whose stock check failed;
  \<^item> \<open>PaymentSkipped\<close>: the warning that the total is zero and payment is skipped;
  \<^item> \<open>PaymentDeclined orderId\<close>: the error after a declined charge;
  \<^item> \<open>ReduceStockFailed orderId cause\<close>: the critical error after a rejected
    \<open>reduceStock\<close>, printed together with the caught error.
\<close>

datatype diagnostic =
  InvalidItem string
| ItemNotFound string
| OrderEmpty
| OutOfStock string string
| PaymentSkipped
| PaymentDeclined string
| ReduceStockFailed string js_error

datatype event =
  ConsoleWarn diagnostic
| ConsoleError diagnostic
| CheckStock string number
| ReduceStock string number
| Charge number string string
| SendOrderConfirmation string OrderDetails
| SendPaymentFailedNotification string string


fun isReduceStock :: "event \<Rightarrow> bool" where
  "isReduceStock (ReduceStock i q) = True"
| "isReduceStock e = False"


fun isSendOrderConfirmation :: "event \<Rightarrow> bool" where
  "isSendOrderConfirmation (SendOrderConfirmation m d) = True"
| "isSendOrderConfirmation e = False"

fun isSendPaymentFailedNotification :: "event \<Rightarrow> bool" where
  "isSendPaymentFailedNotification (SendPaymentFailedNotification m p) = True"
| "isSendPaymentFailedNotification e = False"

text \<open>An event is a call of a collaborator when it is not a console line.\<close>

fun isServiceCall :: "event \<Rightarrow> bool" where
  "isServiceCall (ConsoleWarn d) = False"
| "isServiceCall (ConsoleError d) = False"
| "isServiceCall e = True"

subsection \<open>Construction\<close>

datatype construction_error = InvalidEmail

text \<open>
  The constructor throws when the email is empty or has no \<open>@\<close>; the identifier that
  \<open>uuidV4()\<close> draws is an argument.
\<close>

definition newOrderProcessor ::
  "string \<Rightarrow> 'w IInventoryService \<Rightarrow> 'w IPaymentGateway \<Rightarrow> 'w INotificationService \<Rightarrow>
   string \<Rightarrow> construction_error + 'w OrderProcessor" where
  "newOrderProcessor email inventory gateway notifier uuid =
     (if email = [] \<or> CHR ''@'' \<notin> set email then Inl InvalidEmail
      else Inr \<lparr> items = [], customerEmail = email, discountApplied = False,
                 paymentStatus = pending, orderId = uuid, inventoryService = inventory,
                 paymentGateway = gateway, notificationService = notifier \<rparr>)"

definition getOrderId :: "'w OrderProcessor \<Rightarrow> string" where
  "getOrderId this = orderId this"

subsection \<open>addItem and removeItem\<close>

text \<open>
  \<open>existingItem.quantity += q\<close> writes through the reference that \<open>find\<close> returned, the
  first element that satisfies the predicate: the list is updated at that position.
\<close>

fun updateFirst :: "('a \<Rightarrow> bool) \<Rightarrow> ('a \<Rightarrow> 'a) \<Rightarrow> 'a list \<Rightarrow> 'a list" where
  "updateFirst P f [] = []"
| "updateFirst P f (x # xs) = (if P x then f x # xs else x # updateFirst P f xs)"

definition addItem :: "'w OrderProcessor \<Rightarrow> IOrderItem \<Rightarrow> 'w OrderProcessor \<times> event list" where
  "addItem this item =
     (if quantity item \<le> 0 \<or> price item < 0 then (this, [ConsoleWarn (InvalidItem (name item))])
      else (case find (\<lambda>i. id' i = id' item) (items this) of
              Some existingItem \<Rightarrow>
                (this\<lparr>items := updateFirst (\<lambda>i. id' i = id' item)
                          (\<lambda>i. i\<lparr>quantity := quantity i + quantity item\<rparr>) (items this)\<rparr>, [])
            | None \<Rightarrow> (this\<lparr>items := items this @ [item]\<rparr>, [])))"

fun findIndex :: "('a \<Rightarrow> bool) \<Rightarrow> 'a list \<Rightarrow> int" where
  "findIndex P [] = - 1"
| "findIndex P (x # xs) =
     (if P x then 0 else (let k = findIndex P xs in if k = - 1 then - 1 else k + 1))"

text \<open>\<open>xs.splice(i, 1)\<close> for an index inside the list.\<close>

definition splice1 :: "int \<Rightarrow> 'a list \<Rightarrow> 'a list" where
  "splice1 i xs = take (nat i) xs @ drop (nat i + 1) xs"

definition removeItem :: "'w OrderProcessor \<Rightarrow> string \<Rightarrow> 'w OrderProcessor \<times> event list" where
  "removeItem this itemId =
     (let itemIndex = findIndex (\<lambda>i. id' i = itemId) (items this)
      in if itemIndex > - 1 then (this\<lparr>items := splice1 itemIndex (items this)\<rparr>, [])
         else (this, [ConsoleWarn (ItemNotFound itemId)]))"

subsection \<open>calculateTotal and applyDiscount\<close>

text \<open>
  \<open>parseFloat(x.toFixed(2))\<close>. For a finite \<open>x\<close> below \<open>10^21\<close> in magnitude, \<open>toFixed\<close> takes
  the sign off, picks the integer \<open>n\<close> with \<open>n / 100\<close> nearest to the exact magnitude, the
  larger one on a tie, and prints \<open>n\<close> with two decimals behind the sign; \<open>parseFloat\<close> reads
  that numeral as the nearest binary64 value. For every other \<open>x\<close>, \<open>toFixed\<close> prints what
  \<open>String(x)\<close> prints, which \<open>parseFloat\<close> reads back as \<open>x\<close>.
\<close>

definition toFixed2 :: "number \<Rightarrow> number" where
  "toFixed2 x =
     (case x of
        Finite a \<Rightarrow>
          (if 10 ^ 21 \<le> \<bar>a\<bar> then Finite a
           else if a < 0 then fl (- (of_int \<lfloor>(- a) * 100 + 1 / 2\<rfloor> / 100))
           else fl (of_int \<lfloor>a * 100 + 1 / 2\<rfloor> / 100))
      | _ \<Rightarrow> x)"

text \<open>
  The literal \<open>0.9\<close> is the binary64 value nearest to nine tenths, \<open>fl (9 / 10)\<close>.
\<close>

definition calculateTotal :: "'w OrderProcessor \<Rightarrow> number" where
  "calculateTotal this =
     (let total' = foldl (\<lambda>sum item. sum + price item * quantity item) 0 (items this);
          total' = (if discountApplied this then total' * fl (9 / 10) else total')
      in toFixed2 total')"

definition applyDiscount :: "'w OrderProcessor \<Rightarrow> string \<Rightarrow> bool \<times> 'w OrderProcessor" where
  "applyDiscount this discountCode =
     (if discountCode = ''SALE10'' \<and> \<not> discountApplied this
      then (True, this\<lparr>discountApplied := True\<rparr>)
      else (False, this))"

subsection \<open>processOrder\<close>

text \<open>
  The payload of the failure notification for an item out of stock is the item's name
  between two Russian words, here as the UTF-8 bytes of the source file.
\<close>

definition msgItemPrefix :: string where
  "msgItemPrefix = [CHR 0xD0, CHR 0xA2, CHR 0xD0, CHR 0xBE, CHR 0xD0, CHR 0xB2, CHR 0xD0,
                    CHR 0xB0, CHR 0xD1, CHR 0x80, CHR 0x20]"

definition msgItemSuffix :: string where
  "msgItemSuffix = [CHR 0x20, CHR 0xD0, CHR 0xBE, CHR 0xD1, CHR 0x82, CHR 0xD1, CHR 0x81,
                    CHR 0xD1, CHR 0x83, CHR 0xD1, CHR 0x82, CHR 0xD1, CHR 0x81, CHR 0xD1,
                    CHR 0x82, CHR 0xD0, CHR 0xB2, CHR 0xD1, CHR 0x83, CHR 0xD0, CHR 0xB5,
                    CHR 0xD1, CHR 0x82]"

definition itemMissingMessage :: "IOrderItem \<Rightarrow> string" where
  "itemMissingMessage item = msgItemPrefix @ name item @ msgItemSuffix"

text \<open>
  The first loop (lines 72 to 83): the items are checked in order; the first one that is
  not in stock ends the loop and the method. The result is that item, if any, with the
  calls made and the world they leave.
\<close>

fun checkStockLoop ::
  "'w IInventoryService \<Rightarrow> IOrderItem list \<Rightarrow> 'w \<Rightarrow> IOrderItem option \<times> event list \<times> 'w" where
  "checkStockLoop inventory [] w = (None, [], w)"
| "checkStockLoop inventory (item # rest) w =
     (case checkStock inventory (id' item) (quantity item) w of
        (isInStock, w1) \<Rightarrow>
          if \<not> isInStock then (Some item, [CheckStock (id' item) (quantity item)], w1)
          else (case checkStockLoop inventory rest w1 of
                  (r, evs, w2) \<Rightarrow> (r, CheckStock (id' item) (quantity item) # evs, w2)))"

text \<open>
  The second loop (lines 103 to 105), inside \<open>try\<close>: the first rejected call ends it, and
  the result is the error that \<open>catch\<close> receives.
\<close>

fun reduceStockLoop ::
  "'w IInventoryService \<Rightarrow> IOrderItem list \<Rightarrow> 'w \<Rightarrow> js_error option \<times> event list \<times> 'w" where
  "reduceStockLoop inventory [] w = (None, [], w)"
| "reduceStockLoop inventory (item # rest) w =
     (case reduceStock inventory (id' item) (quantity item) w of
        (Some err, w1) \<Rightarrow> (Some err, [ReduceStock (id' item) (quantity item)], w1)
      | (None, w1) \<Rightarrow>
          (case reduceStockLoop inventory rest w1 of
             (r, evs, w2) \<Rightarrow> (r, ReduceStock (id' item) (quantity item) # evs, w2)))"

text \<open>
  Lines 101 to 119, after the payment step: the stock reduction when the order is paid,
  the confirmation, and the result \<open>true\<close>.
\<close>

definition fulfilOrder ::
  "'w OrderProcessor \<Rightarrow> number \<Rightarrow> 'w \<Rightarrow> bool \<times> 'w OrderProcessor \<times> event list \<times> 'w" where
  "fulfilOrder this totalAmount w =
     (case (if paymentStatus this = paid
            then (case reduceStockLoop (inventoryService this) (items this) w of
                    (Some err, evs, w1) \<Rightarrow>
                      (evs @ [ConsoleError (ReduceStockFailed (orderId this) err)], w1)
                  | (None, evs, w1) \<Rightarrow> (evs, w1))
            else ([], w)) of
        (evs, w1) \<Rightarrow>
          (let details = \<lparr> detailsOrderId = orderId this, detailsItems = items this,
                           detailsTotalAmount = totalAmount, detailsStatus = paymentStatus this \<rparr>
           in (True, this,
               evs @ [SendOrderConfirmation (customerEmail this) details],
               sendOrderConfirmation (notificationService this) (customerEmail this) details w1)))"

definition processOrder ::
  "'w OrderProcessor \<Rightarrow> 'w \<Rightarrow> bool \<times> 'w OrderProcessor \<times> event list \<times> 'w" where
  "processOrder this w =
     (if length (items this) = 0 then (False, this, [ConsoleError OrderEmpty], w)
      else
        (case checkStockLoop (inventoryService this) (items this) w of
           (Some item, evs, w1) \<Rightarrow>
             (False, this\<lparr>paymentStatus := failed\<rparr>,
              evs @ [ConsoleError (OutOfStock (name item) (id' item)),
                     SendPaymentFailedNotification (customerEmail this) (itemMissingMessage item)],
              sendPaymentFailedNotification (notificationService this) (customerEmail this)
                (itemMissingMessage item) w1)
         | (None, evs, w1) \<Rightarrow>
             (let totalAmount = calculateTotal this
              in if totalAmount \<le> 0 \<and> length (items this) > 0
                 then (case fulfilOrder (this\<lparr>paymentStatus := paid\<rparr>) totalAmount w1 of
                         (r, this', evs', w2) \<Rightarrow>
                           (r, this', evs @ [ConsoleWarn PaymentSkipped] @ evs', w2))
                 else if totalAmount > 0
                 then (case charge (paymentGateway this) totalAmount (customerEmail this) (orderId this) w1 of
                         (paymentSuccessful, w2) \<Rightarrow>
                           if \<not> paymentSuccessful
                           then (False, this\<lparr>paymentStatus := failed\<rparr>,
                                 evs @ [Charge totalAmount (customerEmail this) (orderId this),
                                        ConsoleError (PaymentDeclined (orderId this)),
                                        SendPaymentFailedNotification (customerEmail this) (orderId this)],
                                 sendPaymentFailedNotification (notificationService this)
                                   (customerEmail this) (orderId this) w2)
                           else (case fulfilOrder (this\<lparr>paymentStatus := paid\<rparr>) totalAmount w2 of
                                   (r, this', evs', w3) \<Rightarrow>
                                     (r, this',
                                      evs @ [Charge totalAmount (customerEmail this) (orderId this)] @ evs',
                                      w3)))
                 else (case fulfilOrder this totalAmount w1 of
                         (r, this', evs', w2) \<Rightarrow> (r, this', evs @ evs', w2)))))"

subsection \<open>The public operations in sequence\<close>

text \<open>
  \<open>getOrderStatus\<close>, \<open>getOrderId\<close> and \<open>calculateTotal\<close> read fields and assign none; the
  text that \<open>getOrderStatus\<close> builds is not modelled.
\<close>

datatype operation =
  AddItem IOrderItem
| RemoveItem string
| CalculateTotal
| ApplyDiscount string
| ProcessOrder
| GetOrderStatus
| GetOrderId

fun step :: "operation \<Rightarrow> 'w OrderProcessor \<times> 'w \<Rightarrow> 'w OrderProcessor \<times> 'w" where
  "step (AddItem item) (this, w) = (fst (addItem this item), w)"
| "step (RemoveItem itemId) (this, w) = (fst (removeItem this itemId), w)"
| "step CalculateTotal (this, w) = (this, w)"
| "step (ApplyDiscount discountCode) (this, w) = (snd (applyDiscount this discountCode), w)"
| "step ProcessOrder (this, w) =
     (case processOrder this w of (r, this', evs, w') \<Rightarrow> (this', w'))"
| "step GetOrderStatus (this, w) = (this, w)"
| "step GetOrderId (this, w) = (this, w)"

fun run :: "operation list \<Rightarrow> 'w OrderProcessor \<times> 'w \<Rightarrow> 'w OrderProcessor \<times> 'w" where
  "run [] c = c"
| "run (op # ops) c = run ops (step op c)"

subsection \<open>Vocabulary of the statements\<close>

text \<open>
  \<open>processOrder\<close> yields the value it returns, the object after the call, the events
  in order and the world after the call.
\<close>

definition returned :: "bool \<times> 'w OrderProcessor \<times> event list \<times> 'w \<Rightarrow> bool" where
  "returned out = fst out"

definition objectAfter :: "bool \<times> 'w OrderProcessor \<times> event list \<times> 'w \<Rightarrow> 'w OrderProcessor" where
  "objectAfter out = fst (snd out)"

definition eventsOf :: "bool \<times> 'w OrderProcessor \<times> event list \<times> 'w \<Rightarrow> event list" where
  "eventsOf out = fst (snd (snd out))"

definition checkStockCall :: "IOrderItem \<Rightarrow> event" where
  "checkStockCall item = CheckStock (id' item) (quantity item)"

definition reduceStockCall :: "IOrderItem \<Rightarrow> event" where
  "reduceStockCall item = ReduceStock (id' item) (quantity item)"

text \<open>
  What the stock service does when it is asked about the given items one after the other,
  starting in world \<open>w\<close>: \<open>allInStock\<close> is \<open>Some w'\<close> when every check resolves true and
  the calls leave the world \<open>w'\<close>; \<open>allReduced\<close> is \<open>Some w'\<close> when every reduction
  completes.
\<close>

fun allInStock :: "'w IInventoryService \<Rightarrow> IOrderItem list \<Rightarrow> 'w \<Rightarrow> 'w option" where
  "allInStock inventory [] w = Some w"
| "allInStock inventory (item # rest) w =
     (case checkStock inventory (id' item) (quantity item) w of
        (isInStock, w1) \<Rightarrow> if isInStock then allInStock inventory rest w1 else None)"

fun allReduced :: "'w IInventoryService \<Rightarrow> IOrderItem list \<Rightarrow> 'w \<Rightarrow> 'w option" where
  "allReduced inventory [] w = Some w"
| "allReduced inventory (item # rest) w =
     (case reduceStock inventory (id' item) (quantity item) w of
        (None, w1) \<Rightarrow> allReduced inventory rest w1
      | (Some err, w1) \<Rightarrow> None)"

text \<open>What the item list is meant to satisfy: valid quantities and prices, one entry per id.\<close>

definition validItem :: "IOrderItem \<Rightarrow> bool" where
  "validItem item \<longleftrightarrow> quantity item > 0 \<and> price item \<ge> 0"

definition uniqueIds :: "IOrderItem list \<Rightarrow> bool" where
  "uniqueIds xs \<longleftrightarrow> distinct (map id' xs)"

text \<open>The value of the variable \<open>total\<close> of \<open>calculateTotal\<close> before line 55.\<close>

definition runningTotal :: "'w OrderProcessor \<Rightarrow> number" where
  "runningTotal this =
     (if discountApplied this
      then foldl (\<lambda>sum item. sum + price item * quantity item) 0 (items this) * fl (9 / 10)
      else foldl (\<lambda>sum item. sum + price item * quantity item) 0 (items this))"

text \<open>
  The total in the words of the specification, on exact numbers: the sum of price times
  quantity, times nine tenths under a discount, rounded to two decimals with ties away
  from zero.
\<close>

definition specRoundHalfAway2 :: "rat \<Rightarrow> rat" where
  "specRoundHalfAway2 x = sgn x * (of_int \<lfloor>\<bar>x\<bar> * 100 + 1 / 2\<rfloor> / 100)"

definition specTotal :: "(rat \<times> rat) list \<Rightarrow> bool \<Rightarrow> rat" where
  "specTotal pqs discount =
     specRoundHalfAway2 (sum_list (map (\<lambda>(p, q). p * q) pqs) * (if discount then 9 / 10 else 1))"

subsection \<open>A concrete environment\<close>

text \<open>
  The world counts the calls made. The stock service has at most five units of anything
  and cannot reduce the stock of the item \<open>bad\<close>; the gateway declines amounts above 1000.
\<close>

definition demoInventory :: "nat IInventoryService" where
  "demoInventory = \<lparr> checkStock = (\<lambda>itemId q w. (q \<le> Finite 5, w + 1)),
                      reduceStock = (\<lambda>itemId q w.
                        (if itemId = ''bad'' then Some (Error ''stock database'') else None, w + 1)) \<rparr>"

definition demoGateway :: "nat IPaymentGateway" where
  "demoGateway = \<lparr> charge = (\<lambda>amount email oid w. (amount \<le> Finite 1000, w + 1)) \<rparr>"

definition demoNotifier :: "nat INotificationService" where
  "demoNotifier = \<lparr> sendOrderConfirmation = (\<lambda>email details w. w + 1),
                     sendPaymentFailedNotification = (\<lambda>email payload w. w + 1) \<rparr>"

definition demoOrder :: "IOrderItem list \<Rightarrow> nat OrderProcessor" where
  "demoOrder xs = \<lparr> items = xs, customerEmail = ''test@example.com'', discountApplied = False,
                    paymentStatus = pending, orderId = ''order-1'',
                    inventoryService = demoInventory, paymentGateway = demoGateway,
                    notificationService = demoNotifier \<rparr>"

text \<open>An item whose price and quantity are the finite values given.\<close>

definition mkItem :: "string \<Rightarrow> rat \<Rightarrow> rat \<Rightarrow> IOrderItem" where
  "mkItem itemId p q =
     \<lparr> id' = itemId, name = ''Test Item '' @ itemId, price = Finite p, quantity = Finite q \<rparr>"

text \<open>
  The order of the rounding test: two items whose prices are the binary64 values written
  33.333 and 66.666.
\<close>

definition specExample :: "nat OrderProcessor" where
  "specExample =
     demoOrder [\<lparr> id' = ''item1'', name = ''Test Item item1'', price = fl (33333 / 1000),
                  quantity = Finite 1 \<rparr>,
                \<lparr> id' = ''item2'', name = ''Test Item item2'', price = fl (66666 / 1000),
                  quantity = Finite 1 \<rparr>]"

text \<open>
  An item whose price and quantity are \<open>NaN\<close>, and an order whose stock service finds
  everything in stock, as the mock of the test file does by default.
\<close>

definition stockedOrder :: "IOrderItem list \<Rightarrow> nat OrderProcessor" where
  "stockedOrder xs =
     (demoOrder xs)\<lparr>inventoryService :=
        \<lparr> checkStock = (\<lambda>itemId q w. (True, w + 1)),
          reduceStock = (\<lambda>itemId q w. (None, w + 1)) \<rparr>\<rparr>"

definition nanItem :: IOrderItem where
  "nanItem = \<lparr> id' = ''x'', name = ''Test Item x'', price = NaN, quantity = NaN \<rparr>"

section \<open>Properties\<close>

subsection \<open>Numbers\<close>

lemma pow2_powi: "pow2 e = 2 powi e"
  by (simp add: pow2_def power_int_def field_simps)

lemma bitlen_bounds: "0 < n \<Longrightarrow> 2 ^ (bitlen n - 1) \<le> n \<and> n < 2 ^ bitlen n"
proof (induction n rule: bitlen.induct)
  case (1 n)
  show ?case
  proof (cases "n div 2 \<le> 0")
    case True
    with 1(2) have "n = 1" by linarith
    then show ?thesis by (simp add: bitlen.simps)
  next
    case False
    then have half: "0 < n div 2" by simp
    with 1 have ih: "2 ^ (bitlen (n div 2) - 1) \<le> n div 2" "n div 2 < 2 ^ bitlen (n div 2)"
      by auto
    have pos: "0 < bitlen (n div 2)" using half by (simp add: bitlen.simps)
    have b: "bitlen n = Suc (bitlen (n div 2))" using 1(2) by (simp add: bitlen.simps)
    have "2 * 2 ^ (bitlen (n div 2) - 1) \<le> n" using ih(1) by linarith
    moreover have "2 * 2 ^ (bitlen (n div 2) - 1) = (2::int) ^ bitlen (n div 2)"
      using pos by (cases "bitlen (n div 2)") auto
    moreover have "n < 2 * 2 ^ bitlen (n div 2)" using ih(2) by linarith
    ultimately show ?thesis by (simp add: b)
  qed
qed

lemma ilog2_bounds:
  assumes "0 < x"
  shows "pow2 (ilog2 x) \<le> x \<and> x < pow2 (ilog2 x + 1)"
proof -
  obtain p q where pq: "quotient_of x = (p, q)" by (cases "quotient_of x")
  then have q: "0 < q" and x: "x = of_int p / of_int q"
    using quotient_of_denom_pos quotient_of_div by auto
  have p: "0 < p" using assms q x by (simp add: zero_less_divide_iff)
  let ?a = "bitlen p" and ?b = "bitlen q"
  let ?k = "int ?a - int ?b"
  note bp = bitlen_bounds [OF p] and bq = bitlen_bounds [OF q]
  have apos: "0 < ?a" and bpos: "0 < ?b" using p q by (simp_all add: bitlen.simps)
  have d: "pow2 (int m - int n) = 2 ^ m / 2 ^ n" for m n
    by (simp add: pow2_powi power_int_diff)
  have P: "(2::rat) ^ (?a - 1) \<le> of_int p" "of_int p < (2::rat) ^ ?a"
    using bp by (metis of_int_le_iff of_int_numeral of_int_power, metis of_int_less_iff of_int_numeral of_int_power)
  have Q: "(2::rat) ^ (?b - 1) \<le> of_int q" "of_int q < (2::rat) ^ ?b"
    using bq by (metis of_int_le_iff of_int_numeral of_int_power, metis of_int_less_iff of_int_numeral of_int_power)
  have qr: "0 < (of_int q :: rat)" and pr: "0 < (of_int p :: rat)" using q p by simp_all
  have "x < 2 ^ ?a / of_int q"
    using P(2) qr by (simp add: x divide_strict_right_mono)
  also have "\<dots> \<le> 2 ^ ?a / 2 ^ (?b - 1)"
    using Q(1) by (simp add: frac_le)
  also have "\<dots> = pow2 (int ?a - int (?b - 1))" by (simp only: d)
  also have "int ?a - int (?b - 1) = ?k + 1" using bpos by simp
  finally have up: "x < pow2 (?k + 1)" .
  have "pow2 (int (?a - 1) - int ?b) = 2 ^ (?a - 1) / 2 ^ ?b" by (simp only: d)
  also have "\<dots> \<le> of_int p / 2 ^ ?b"
    using P(1) by (simp add: divide_right_mono)
  also have "\<dots> \<le> of_int p / of_int q"
    using Q(2) pr qr by (simp add: frac_le)
  finally have "pow2 (int (?a - 1) - int ?b) \<le> x" by (simp add: x)
  moreover have "int (?a - 1) - int ?b = ?k - 1" using apos by linarith
  ultimately have lo: "pow2 (?k - 1) \<le> x" by (simp only:)
  show ?thesis
    using up lo pq by (auto simp: ilog2_def Let_def)
qed

lemma roundTiesToEven_nearest: "\<bar>of_int (roundTiesToEven y) - y\<bar> \<le> 1 / 2"
proof -
  have "of_int \<lfloor>y\<rfloor> \<le> y" and "y < of_int \<lfloor>y\<rfloor> + 1"
    by linarith+
  then show ?thesis
    by (simp add: roundTiesToEven_def Let_def abs_le_iff)
qed

lemma roundTiesToEven_tie:
  "\<bar>of_int (roundTiesToEven y) - y\<bar> = 1 / 2 \<Longrightarrow> even (roundTiesToEven y)"
proof -
  have "of_int \<lfloor>y\<rfloor> \<le> y" and "y < of_int \<lfloor>y\<rfloor> + 1"
    by linarith+
  then show "\<bar>of_int (roundTiesToEven y) - y\<bar> = 1 / 2 \<Longrightarrow> ?thesis"
    by (auto simp: roundTiesToEven_def Let_def abs_if split: if_splits) linarith+
qed

text \<open>
  A finite result of \<open>fl\<close> is a multiple of the quantum of its argument and at most half
  a quantum away from it; arguments from \<open>2^1024\<close> on give infinity. The sums below are
  the familiar ones: 0.1 + 0.2 is the value above 0.3, and \<open>2^53 + 1\<close> is a tie that goes
  to the even neighbour.
\<close>

lemma pow2_pos: "0 < pow2 e"
  by (simp add: pow2_def)

lemma pow2_mono: "a \<le> b \<Longrightarrow> pow2 a \<le> pow2 b"
  by (simp add: pow2_powi power_int_increasing)

lemma fl_nearest:
  assumes "fl x = Finite r"
  shows "\<exists>m. r = of_int m * pow2 (max (ilog2 \<bar>x\<bar> - 52) (- 1074)) \<and>
             \<bar>r - x\<bar> \<le> pow2 (max (ilog2 \<bar>x\<bar> - 52) (- 1074)) / 2"
proof (cases "x = 0")
  case True
  with assms have "r = 0" by (simp add: fl_def)
  with True have "r = of_int 0 * pow2 (max (ilog2 \<bar>x\<bar> - 52) (- 1074)) \<and>
             \<bar>r - x\<bar> \<le> pow2 (max (ilog2 \<bar>x\<bar> - 52) (- 1074)) / 2"
    using pow2_pos [of "max (ilog2 \<bar>x\<bar> - 52) (- 1074)"] by simp
  then show ?thesis by blast
next
  case False
  let ?q = "max (ilog2 \<bar>x\<bar> - 52) (- 1074)"
  let ?m = "roundTiesToEven (x / pow2 ?q)"
  have r: "r = of_int ?m * pow2 ?q"
    using assms False by (auto simp: fl_def Let_def split: if_splits)
  have "\<bar>of_int ?m - x / pow2 ?q\<bar> \<le> 1 / 2"
    by (rule roundTiesToEven_nearest)
  then have "\<bar>of_int ?m - x / pow2 ?q\<bar> * pow2 ?q \<le> 1 / 2 * pow2 ?q"
    using pow2_pos [of ?q] by (simp add: mult_right_mono)
  moreover have "\<bar>a - x / c\<bar> * c = \<bar>a * c - x\<bar>" if "0 < c" for a c :: rat
  proof -
    have "\<bar>a - x / c\<bar> * c = \<bar>(a - x / c) * c\<bar>"
      using that by (simp add: abs_mult)
    also have "(a - x / c) * c = a * c - x"
      using that by (simp add: field_simps)
    finally show ?thesis .
  qed
  from this [OF pow2_pos [of ?q], of "of_int ?m"]
  have "\<bar>of_int ?m - x / pow2 ?q\<bar> * pow2 ?q = \<bar>of_int ?m * pow2 ?q - x\<bar>" .
  ultimately have "\<bar>r - x\<bar> \<le> pow2 ?q / 2"
    by (simp add: r)
  with r show ?thesis by blast
qed

lemma fl_overflow:
  assumes "pow2 1024 \<le> x"
  shows "fl x = PosInfinity"
proof -
  have pos: "0 < x" using assms pow2_pos [of 1024] by linarith
  have "x < pow2 (ilog2 x + 1)" using ilog2_bounds [OF pos] by simp
  with assms have "pow2 1024 < pow2 (ilog2 x + 1)" by linarith
  then have "1023 < ilog2 x"
    using pow2_mono [of "ilog2 x + 1" 1024] by (cases "1023 < ilog2 x") auto
  with pos show ?thesis by (simp add: fl_def Let_def)
qed

lemma fl_examples:
  "fl (1 / 10) = Finite (3602879701896397 / 36028797018963968) \<and>
   fl (1 / 10) + fl (2 / 10) = Finite (1351079888211149 / 4503599627370496) \<and>
   fl (3 / 10) = Finite (5404319552844595 / 18014398509481984) \<and>
   Finite (2 ^ 53) + Finite 1 = Finite (2 ^ 53) \<and>
   Finite (2 ^ 53) + Finite 3 = Finite (2 ^ 53 + 4)"
  by (intro conjI; code_simp)

lemma number_less_not_le: "(a::number) < b \<Longrightarrow> \<not> b \<le> a"
  by (cases a; cases b) auto

lemma number_le_not_less: "(a::number) \<le> b \<Longrightarrow> \<not> b < a"
  by (cases a; cases b) auto


lemma number_zero_not_less_zero: "\<not> (0::number) < 0"
  by (simp add: zero_number_def)

lemma fl_zero: "fl 0 = Finite 0"
  by (simp add: fl_def)

lemma fl_nine_tenths: "fl (9 / 10) = Finite (8106479329266893 / 9007199254740992)"
  by code_simp

subsection \<open>The two loops\<close>

lemma checkStockLoop_all:
  "allInStock inventory xs w = Some w1 \<Longrightarrow>
   checkStockLoop inventory xs w = (None, map checkStockCall xs, w1)"
  by (induction xs arbitrary: w) (auto simp: checkStockCall_def split: prod.splits if_splits)


lemma reduceStockLoop_all:
  "allReduced inventory xs w = Some w1 \<Longrightarrow>
   reduceStockLoop inventory xs w = (None, map reduceStockCall xs, w1)"
  by (induction xs arbitrary: w) (auto simp: reduceStockCall_def split: prod.splits option.splits)

lemma reduceStockLoop_first:
  "allReduced inventory pre w = Some w1 \<Longrightarrow>
   reduceStock inventory (id' item) (quantity item) w1 = (Some err, w2) \<Longrightarrow>
   reduceStockLoop inventory (pre @ item # post) w =
     (Some err, map reduceStockCall (pre @ [item]), w2)"
  by (induction pre arbitrary: w) (auto simp: reduceStockCall_def split: prod.splits option.splits)


text \<open>
  Every run of a loop is of one of two kinds: all calls succeed, or there is a first item
  whose call fails after the calls for the items before it succeeded.
\<close>

lemma stock_check_cases:
  "(\<exists>w1. allInStock inventory xs w = Some w1) \<or>
   (\<exists>pre item post w1 w2. xs = pre @ item # post \<and> allInStock inventory pre w = Some w1 \<and>
      checkStock inventory (id' item) (quantity item) w1 = (False, w2))"
proof (induction xs arbitrary: w)
  case Nil
  then show ?case by simp
next
  case (Cons x xs)
  obtain b w' where c: "checkStock inventory (id' x) (quantity x) w = (b, w')"
    by (cases "checkStock inventory (id' x) (quantity x) w")
  show ?case
  proof (cases b)
    case False
    then have "x # xs = [] @ x # xs \<and> allInStock inventory [] w = Some w \<and>
               checkStock inventory (id' x) (quantity x) w = (False, w')"
      using c by simp
    then show ?thesis by blast
  next
    case True
    from Cons.IH [of w'] show ?thesis
    proof
      assume "\<exists>w1. allInStock inventory xs w' = Some w1"
      then show ?thesis using c True by simp
    next
      assume "\<exists>pre item post w1 w2. xs = pre @ item # post \<and> allInStock inventory pre w' = Some w1 \<and>
                checkStock inventory (id' item) (quantity item) w1 = (False, w2)"
      then obtain pre item post w1 w2 where
        h: "xs = pre @ item # post" "allInStock inventory pre w' = Some w1"
           "checkStock inventory (id' item) (quantity item) w1 = (False, w2)"
        by blast
      then have "x # xs = (x # pre) @ item # post \<and> allInStock inventory (x # pre) w = Some w1 \<and>
                 checkStock inventory (id' item) (quantity item) w1 = (False, w2)"
        using c True by simp
      then show ?thesis by blast
    qed
  qed
qed

lemma reduce_stock_cases:
  "(\<exists>w1. allReduced inventory xs w = Some w1) \<or>
   (\<exists>pre item post w1 err w2. xs = pre @ item # post \<and> allReduced inventory pre w = Some w1 \<and>
      reduceStock inventory (id' item) (quantity item) w1 = (Some err, w2))"
proof (induction xs arbitrary: w)
  case Nil
  then show ?case by simp
next
  case (Cons x xs)
  obtain r w' where c: "reduceStock inventory (id' x) (quantity x) w = (r, w')"
    by (cases "reduceStock inventory (id' x) (quantity x) w")
  show ?case
  proof (cases r)
    case (Some err)
    then have "x # xs = [] @ x # xs \<and> allReduced inventory [] w = Some w \<and>
               reduceStock inventory (id' x) (quantity x) w = (Some err, w')"
      using c by simp
    then show ?thesis by blast
  next
    case None
    from Cons.IH [of w'] show ?thesis
    proof
      assume "\<exists>w1. allReduced inventory xs w' = Some w1"
      then show ?thesis using c None by simp
    next
      assume "\<exists>pre item post w1 err w2. xs = pre @ item # post \<and>
                allReduced inventory pre w' = Some w1 \<and>
                reduceStock inventory (id' item) (quantity item) w1 = (Some err, w2)"
      then obtain pre item post w1 err w2 where
        h: "xs = pre @ item # post" "allReduced inventory pre w' = Some w1"
           "reduceStock inventory (id' item) (quantity item) w1 = (Some err, w2)"
        by blast
      then have "x # xs = (x # pre) @ item # post \<and> allReduced inventory (x # pre) w = Some w1 \<and>
                 reduceStock inventory (id' item) (quantity item) w1 = (Some err, w2)"
        using c None by simp
      then show ?thesis by blast
    qed
  qed
qed

subsection \<open>Checkout\<close>

lemma calculateTotal_runningTotal: "calculateTotal this = toFixed2 (runningTotal this)"
  by (simp add: calculateTotal_def runningTotal_def)

lemma calculateTotal_empty: "items this = [] \<Longrightarrow> calculateTotal this = 0"
proof -
  have "\<lfloor>1 / 2 :: rat\<rfloor> = 0" by (simp add: floor_eq_iff)
  then have "toFixed2 (Finite 0) = Finite 0" by (simp add: toFixed2_def fl_zero)
  moreover have "Finite 0 * fl (9 / 10) = Finite 0" by (simp add: fl_nine_tenths fl_zero)
  ultimately show "items this = [] \<Longrightarrow> calculateTotal this = 0"
    by (simp add: calculateTotal_def Let_def zero_number_def)
qed

lemma fulfilOrder_paid:
  "paymentStatus this = paid \<Longrightarrow>
   reduceStockLoop (inventoryService this) (items this) w = (r, evs, w1) \<Longrightarrow>
   fulfilOrder this t w =
     (True, this,
      evs @ (case r of Some err \<Rightarrow> [ConsoleError (ReduceStockFailed (orderId this) err)] | None \<Rightarrow> [])
          @ [SendOrderConfirmation (customerEmail this)
               \<lparr> detailsOrderId = orderId this, detailsItems = items this,
                 detailsTotalAmount = t, detailsStatus = paid \<rparr>],
      sendOrderConfirmation (notificationService this) (customerEmail this)
        \<lparr> detailsOrderId = orderId this, detailsItems = items this,
          detailsTotalAmount = t, detailsStatus = paid \<rparr> w1)"
  by (simp add: fulfilOrder_def Let_def split: option.splits)


lemma fulfilOrder_object: "fst (snd (fulfilOrder this t w)) = this"
  by (simp add: fulfilOrder_def Let_def split: prod.splits option.splits)


text \<open>\<open>processOrder\<close> assigns no field but \<open>paymentStatus\<close>.\<close>

lemma processOrder_frame:
  "objectAfter (processOrder this w) =
     this\<lparr>paymentStatus := paymentStatus (objectAfter (processOrder this w))\<rparr>"
proof -
  have f: "fulfilOrder s t v = (r, s', evs, v') \<Longrightarrow> s' = s"
    for s :: "'a OrderProcessor" and t v r s' evs v'
    using fulfilOrder_object [of s t v] by simp
  show ?thesis
    by (auto simp: processOrder_def objectAfter_def Let_def dest!: f
             split: prod.splits option.splits)
qed

subsection \<open>Totals of the example orders\<close>

lemma demo_total_1200: "calculateTotal (demoOrder [mkItem ''a'' 600 2]) = Finite 1200"
  by code_simp

lemma demo_total_175:
  "calculateTotal (demoOrder [mkItem ''prod1'' 50 2, mkItem ''prod2'' 75 1]) = Finite 175"
  by code_simp

lemma demo_total_16:
  "calculateTotal (demoOrder [mkItem ''a'' 10 1, mkItem ''bad'' 5 1, mkItem ''c'' 1 1]) = Finite 16"
  by code_simp




text \<open>
  C2. Let the computed total be positive and let every stock check resolve true. If
  \<open>charge\<close> resolves false, \<open>processOrder\<close> returns false with \<open>paymentStatus\<close> failed;
  after the stock checks its events are the charge, the console error and the
  payment-failure notification whose payload is the \<open>orderId\<close>, so that no stock is
  reduced and no confirmation is sent. If \<open>charge\<close> resolves true, \<open>paymentStatus\<close> is paid
  when the method ends.
\<close>

theorem C2_charge:
  assumes total: "calculateTotal this > 0"
    and stock: "allInStock (inventoryService this) (items this) w = Some w1"
    and ch: "charge (paymentGateway this) (calculateTotal this) (customerEmail this)
               (orderId this) w1 = (paymentSuccessful, w2)"
  shows "(\<not> paymentSuccessful \<longrightarrow>
            processOrder this w =
              (False, this\<lparr>paymentStatus := failed\<rparr>,
               map checkStockCall (items this) @
                 [Charge (calculateTotal this) (customerEmail this) (orderId this),
                  ConsoleError (PaymentDeclined (orderId this)),
                  SendPaymentFailedNotification (customerEmail this) (orderId this)],
               sendPaymentFailedNotification (notificationService this) (customerEmail this)
                 (orderId this) w2) \<and>
            list_all (\<lambda>e. \<not> isReduceStock e \<and> \<not> isSendOrderConfirmation e)
              (eventsOf (processOrder this w)) \<and>
            filter isSendPaymentFailedNotification (eventsOf (processOrder this w)) =
              [SendPaymentFailedNotification (customerEmail this) (orderId this)]) \<and>
         (paymentSuccessful \<longrightarrow> paymentStatus (objectAfter (processOrder this w)) = paid)"
proof -
  have ne: "items this \<noteq> []"
    using total calculateTotal_empty [of this] number_zero_not_less_zero by auto
  have pos: "\<not> calculateTotal this \<le> 0"
    using total by (rule number_less_not_le)
  have loop: "checkStockLoop (inventoryService this) (items this) w =
                (None, map checkStockCall (items this), w1)"
    using stock by (rule checkStockLoop_all)
  have declined: "processOrder this w =
              (False, this\<lparr>paymentStatus := failed\<rparr>,
               map checkStockCall (items this) @
                 [Charge (calculateTotal this) (customerEmail this) (orderId this),
                  ConsoleError (PaymentDeclined (orderId this)),
                  SendPaymentFailedNotification (customerEmail this) (orderId this)],
               sendPaymentFailedNotification (notificationService this) (customerEmail this)
                 (orderId this) w2)" if "\<not> paymentSuccessful"
    using that ne total pos ch by (simp add: processOrder_def loop)
  have quiet: "list_all (\<lambda>e. \<not> isReduceStock e \<and> \<not> isSendOrderConfirmation e)
              (eventsOf (processOrder this w))" if "\<not> paymentSuccessful"
    by (simp add: declined [OF that] eventsOf_def checkStockCall_def list_all_iff)
  have notified: "filter isSendPaymentFailedNotification (eventsOf (processOrder this w)) =
              [SendPaymentFailedNotification (customerEmail this) (orderId this)]"
    if "\<not> paymentSuccessful"
    by (simp add: declined [OF that] eventsOf_def checkStockCall_def filter_map comp_def)
  have accepted: "paymentStatus (objectAfter (processOrder this w)) = paid" if "paymentSuccessful"
  proof -
    obtain r s evs v where f: "fulfilOrder (this\<lparr>paymentStatus := paid\<rparr>) (calculateTotal this) w2 = (r, s, evs, v)"
      by (metis prod_cases4)
    then have "s = this\<lparr>paymentStatus := paid\<rparr>"
      using fulfilOrder_object [of "this\<lparr>paymentStatus := paid\<rparr>" "calculateTotal this" w2] by simp
    then show ?thesis
      using that ne total pos ch f by (simp add: processOrder_def loop objectAfter_def)
  qed
  show ?thesis using declined quiet notified accepted by blast
qed

theorem C2_charge_witness:
  "0 < calculateTotal (demoOrder [mkItem ''a'' 600 2]) \<and>
   allInStock demoInventory [mkItem ''a'' 600 2] 0 = Some 1 \<and>
   charge demoGateway (Finite 1200) ''test@example.com'' ''order-1'' 1 = (False, 2) \<and>
   processOrder (demoOrder [mkItem ''a'' 600 2]) 0 =
     (False, demoOrder [mkItem ''a'' 600 2]\<lparr>paymentStatus := failed\<rparr>,
      [CheckStock ''a'' (Finite 2), Charge (Finite 1200) ''test@example.com'' ''order-1'',
       ConsoleError (PaymentDeclined ''order-1''),
       SendPaymentFailedNotification ''test@example.com'' ''order-1''],
      3) \<and>
   0 < calculateTotal (demoOrder [mkItem ''prod1'' 50 2, mkItem ''prod2'' 75 1]) \<and>
   allInStock demoInventory [mkItem ''prod1'' 50 2, mkItem ''prod2'' 75 1] 0 = Some 2 \<and>
   charge demoGateway (Finite 175) ''test@example.com'' ''order-1'' 2 = (True, 3) \<and>
   paymentStatus (objectAfter
     (processOrder (demoOrder [mkItem ''prod1'' 50 2, mkItem ''prod2'' 75 1]) 0)) = paid"
  using C2_charge [of "demoOrder [mkItem ''a'' 600 2]" 0 1 False 2]
        C2_charge [of "demoOrder [mkItem ''prod1'' 50 2, mkItem ''prod2'' 75 1]" 0 2 True 3]
  by (simp add: demo_total_1200 demo_total_175 zero_number_def)
     (simp add: demoOrder_def demoInventory_def demoGateway_def demoNotifier_def mkItem_def
                checkStockCall_def)

text \<open>
  C3. Let the order have become paid (the total is not positive, or the charge resolved
  true), let the items be \<open>pre @ item # post\<close>, let the reductions of \<open>pre\<close> complete and
  the reduction of \<open>item\<close> reject with \<open>err\<close>. Then \<open>reduceStock\<close> is called for \<open>pre\<close>
  and \<open>item\<close> and for nothing of \<open>post\<close>, the critical console error carries \<open>err\<close>, the
  confirmation is sent with status paid, \<open>paymentStatus\<close> stays paid and the method returns
  true.
\<close>

theorem C3_reduce_fails:
  assumes its: "items this = pre @ item # post"
    and stock: "allInStock (inventoryService this) (items this) w = Some w1"
    and pay: "(calculateTotal this \<le> 0 \<and> w2 = w1) \<or>
              (calculateTotal this > 0 \<and>
               charge (paymentGateway this) (calculateTotal this) (customerEmail this)
                 (orderId this) w1 = (True, w2))"
    and red: "allReduced (inventoryService this) pre w2 = Some w3"
    and fail: "reduceStock (inventoryService this) (id' item) (quantity item) w3 = (Some err, w4)"
  shows "processOrder this w =
           (True, this\<lparr>paymentStatus := paid\<rparr>,
            map checkStockCall (items this) @
              [if calculateTotal this \<le> 0 then ConsoleWarn PaymentSkipped
               else Charge (calculateTotal this) (customerEmail this) (orderId this)] @
              map reduceStockCall (pre @ [item]) @
              [ConsoleError (ReduceStockFailed (orderId this) err),
               SendOrderConfirmation (customerEmail this)
                 \<lparr> detailsOrderId = orderId this, detailsItems = items this,
                   detailsTotalAmount = calculateTotal this, detailsStatus = paid \<rparr>],
            sendOrderConfirmation (notificationService this) (customerEmail this)
              \<lparr> detailsOrderId = orderId this, detailsItems = items this,
                detailsTotalAmount = calculateTotal this, detailsStatus = paid \<rparr> w4) \<and>
         filter isReduceStock (eventsOf (processOrder this w)) = map reduceStockCall (pre @ [item])"
proof -
  let ?paid = "this\<lparr>paymentStatus := paid\<rparr>"
  have ne: "items this \<noteq> []" using its by simp
  have loop: "checkStockLoop (inventoryService this) (items this) w =
                (None, map checkStockCall (items this), w1)"
    using stock by (rule checkStockLoop_all)
  have rloop: "reduceStockLoop (inventoryService ?paid) (items ?paid) w2 =
                 (Some err, map reduceStockCall (pre @ [item]), w4)"
    using reduceStockLoop_first [OF red fail, of post] its by simp
  have ful: "fulfilOrder ?paid (calculateTotal this) w2 =
     (True, ?paid,
      map reduceStockCall (pre @ [item]) @ [ConsoleError (ReduceStockFailed (orderId this) err)]
          @ [SendOrderConfirmation (customerEmail this)
               \<lparr> detailsOrderId = orderId this, detailsItems = items this,
                 detailsTotalAmount = calculateTotal this, detailsStatus = paid \<rparr>],
      sendOrderConfirmation (notificationService this) (customerEmail this)
        \<lparr> detailsOrderId = orderId this, detailsItems = items this,
          detailsTotalAmount = calculateTotal this, detailsStatus = paid \<rparr> w4)"
    using fulfilOrder_paid [OF _ rloop, of "calculateTotal this"] by simp
  have main: "processOrder this w =
           (True, this\<lparr>paymentStatus := paid\<rparr>,
            map checkStockCall (items this) @
              [if calculateTotal this \<le> 0 then ConsoleWarn PaymentSkipped
               else Charge (calculateTotal this) (customerEmail this) (orderId this)] @
              map reduceStockCall (pre @ [item]) @
              [ConsoleError (ReduceStockFailed (orderId this) err),
               SendOrderConfirmation (customerEmail this)
                 \<lparr> detailsOrderId = orderId this, detailsItems = items this,
                   detailsTotalAmount = calculateTotal this, detailsStatus = paid \<rparr>],
            sendOrderConfirmation (notificationService this) (customerEmail this)
              \<lparr> detailsOrderId = orderId this, detailsItems = items this,
                detailsTotalAmount = calculateTotal this, detailsStatus = paid \<rparr> w4)"
    using pay
  proof
    assume "calculateTotal this \<le> 0 \<and> w2 = w1"
    then show ?thesis using ne ful by (simp add: processOrder_def loop Let_def)
  next
    assume charged: "calculateTotal this > 0 \<and>
               charge (paymentGateway this) (calculateTotal this) (customerEmail this)
                 (orderId this) w1 = (True, w2)"
    then have "\<not> calculateTotal this \<le> 0"
      by (simp add: number_less_not_le)
    with charged show ?thesis using ne ful by (simp add: processOrder_def loop Let_def)
  qed
  have "filter isReduceStock (eventsOf (processOrder this w)) = map reduceStockCall (pre @ [item])"
    by (simp add: main eventsOf_def checkStockCall_def reduceStockCall_def filter_map comp_def)
  with main show ?thesis by blast
qed

theorem C3_reduce_fails_witness:
  "items (demoOrder [mkItem ''a'' 10 1, mkItem ''bad'' 5 1, mkItem ''c'' 1 1]) =
     [mkItem ''a'' 10 1] @ mkItem ''bad'' 5 1 # [mkItem ''c'' 1 1] \<and>
   allInStock demoInventory [mkItem ''a'' 10 1, mkItem ''bad'' 5 1, mkItem ''c'' 1 1] 0 = Some 3 \<and>
   charge demoGateway (Finite 16) ''test@example.com'' ''order-1'' 3 = (True, 4) \<and>
   allReduced demoInventory [mkItem ''a'' 10 1] 4 = Some 5 \<and>
   reduceStock demoInventory ''bad'' (Finite 1) 5 = (Some (Error ''stock database''), 6) \<and>
   processOrder (demoOrder [mkItem ''a'' 10 1, mkItem ''bad'' 5 1, mkItem ''c'' 1 1]) 0 =
     (True,
      demoOrder [mkItem ''a'' 10 1, mkItem ''bad'' 5 1, mkItem ''c'' 1 1]\<lparr>paymentStatus := paid\<rparr>,
      [CheckStock ''a'' (Finite 1), CheckStock ''bad'' (Finite 1), CheckStock ''c'' (Finite 1),
       Charge (Finite 16) ''test@example.com'' ''order-1'',
       ReduceStock ''a'' (Finite 1), ReduceStock ''bad'' (Finite 1),
       ConsoleError (ReduceStockFailed ''order-1'' (Error ''stock database'')),
       SendOrderConfirmation ''test@example.com''
         \<lparr> detailsOrderId = ''order-1'',
           detailsItems = [mkItem ''a'' 10 1, mkItem ''bad'' 5 1, mkItem ''c'' 1 1],
           detailsTotalAmount = Finite 16, detailsStatus = paid \<rparr>],
      7)"
  using C3_reduce_fails [of "demoOrder [mkItem ''a'' 10 1, mkItem ''bad'' 5 1, mkItem ''c'' 1 1]"
      "[mkItem ''a'' 10 1]" "mkItem ''bad'' 5 1" "[mkItem ''c'' 1 1]" 0 3 4 5 "Error ''stock database''" 6]
  by (simp add: demo_total_16 zero_number_def)
     (simp add: demoOrder_def demoInventory_def demoGateway_def demoNotifier_def mkItem_def
                checkStockCall_def reduceStockCall_def)



text \<open>
  C9. On an order without items \<open>processOrder\<close> returns false at once: the only event is
  the console error, no service is called, the world and the object are as before.
\<close>

theorem C9_empty_order:
  "items this = [] \<Longrightarrow>
   processOrder this w = (False, this, [ConsoleError OrderEmpty], w) \<and>
   list_all (\<lambda>e. \<not> isServiceCall e) (eventsOf (processOrder this w))"
  by (simp add: processOrder_def eventsOf_def)

theorem C9_empty_order_witness:
  "items (demoOrder []) = [] \<and>
   processOrder (demoOrder []) 0 = (False, demoOrder [], [ConsoleError OrderEmpty], 0)"
  using C9_empty_order [of "demoOrder []" 0] by (simp add: demoOrder_def)

text \<open>
  C10. When \<open>processOrder\<close> returns false, the item list, \<open>discountApplied\<close>,
  \<open>customerEmail\<close> and \<open>orderId\<close> (and the injected services) are as before the call: the
  object differs from the old one in \<open>paymentStatus\<close> at most. On an order without items
  the whole object is unchanged, so a pending order stays pending.
\<close>

theorem C10_failure_frame:
  assumes "returned (processOrder this w) = False"
  shows "items (objectAfter (processOrder this w)) = items this \<and>
         discountApplied (objectAfter (processOrder this w)) = discountApplied this \<and>
         customerEmail (objectAfter (processOrder this w)) = customerEmail this \<and>
         orderId (objectAfter (processOrder this w)) = orderId this \<and>
         objectAfter (processOrder this w) =
           this\<lparr>paymentStatus := paymentStatus (objectAfter (processOrder this w))\<rparr> \<and>
         (items this = [] \<longrightarrow> objectAfter (processOrder this w) = this) \<and>
         (items this = [] \<and> paymentStatus this = pending \<longrightarrow>
            paymentStatus (objectAfter (processOrder this w)) = pending)"
proof -
  have frame: "objectAfter (processOrder this w) =
           this\<lparr>paymentStatus := paymentStatus (objectAfter (processOrder this w))\<rparr>"
    by (rule processOrder_frame)
  have empty: "objectAfter (processOrder this w) = this" if "items this = []"
    using that by (simp add: processOrder_def objectAfter_def)
  have "items (objectAfter (processOrder this w)) = items this"
    by (subst frame) simp
  moreover have "discountApplied (objectAfter (processOrder this w)) = discountApplied this"
    by (subst frame) simp
  moreover have "customerEmail (objectAfter (processOrder this w)) = customerEmail this"
    by (subst frame) simp
  moreover have "orderId (objectAfter (processOrder this w)) = orderId this"
    by (subst frame) simp
  ultimately show ?thesis using frame empty by simp
qed

theorem C10_failure_frame_witness:
  "returned (processOrder (demoOrder [mkItem ''b'' 20 10]) 0) = False \<and>
   items (objectAfter (processOrder (demoOrder [mkItem ''b'' 20 10]) 0)) = [mkItem ''b'' 20 10] \<and>
   discountApplied (objectAfter (processOrder (demoOrder [mkItem ''b'' 20 10]) 0)) = False \<and>
   customerEmail (objectAfter (processOrder (demoOrder [mkItem ''b'' 20 10]) 0)) = ''test@example.com'' \<and>
   orderId (objectAfter (processOrder (demoOrder [mkItem ''b'' 20 10]) 0)) = ''order-1''"
proof -
  have r: "returned (processOrder (demoOrder [mkItem ''b'' 20 10]) 0) = False"
    by (simp add: processOrder_def returned_def demoOrder_def demoInventory_def mkItem_def)
  show ?thesis
    using r C10_failure_frame [OF r] by (simp add: demoOrder_def)
qed

subsection \<open>The item list\<close>

lemma applyDiscount_items: "items (snd (applyDiscount this c)) = items this"
  by (simp add: applyDiscount_def)

lemma applyDiscount_status: "paymentStatus (snd (applyDiscount this c)) = paymentStatus this"
  by (simp add: applyDiscount_def)

lemma updateFirst_split:
  "\<forall>x \<in> set pre. \<not> P x \<Longrightarrow> P e \<Longrightarrow> updateFirst P f (pre @ e # post) = pre @ f e # post"
  by (induction pre) auto

lemma updateFirst_map_id:
  "map id' (updateFirst P (\<lambda>i. i\<lparr>quantity := g i\<rparr>) xs) = map id' xs"
  by (induction xs) auto

text \<open>
  What \<open>addItem\<close> does in each of its three branches: it rejects an item whose quantity is
  at most 0 or whose price is below 0; otherwise it adds the quantity to the first entry
  with the same id and leaves the price of that entry, or appends the item when there is
  no such entry. The ids of the list stay distinct through all operations.
\<close>

lemma addItem_rejected:
  "quantity item \<le> 0 \<or> price item < 0 \<Longrightarrow>
   addItem this item = (this, [ConsoleWarn (InvalidItem (name item))])"
  by (auto simp: addItem_def)

lemma addItem_merged:
  assumes "\<not> (quantity item \<le> 0 \<or> price item < 0)" "items this = pre @ e # post"
    "id' e = id' item" "id' item \<notin> id' ` set pre"
  shows "addItem this item =
           (this\<lparr>items := pre @ e\<lparr>quantity := quantity e + quantity item\<rparr> # post\<rparr>, [])"
proof -
  have "find (\<lambda>i. id' i = id' item) (items this) \<noteq> None"
    using assms by (auto simp: find_None_iff)
  moreover have "\<forall>x \<in> set pre. id' x \<noteq> id' item"
    using assms(4) by (metis image_eqI)
  then have "updateFirst (\<lambda>i. id' i = id' item) (\<lambda>i. i\<lparr>quantity := quantity i + quantity item\<rparr>)
                   (pre @ e # post) = pre @ e\<lparr>quantity := quantity e + quantity item\<rparr> # post"
    using assms(3) by (intro updateFirst_split) auto
  ultimately show ?thesis
    using assms by (auto simp: addItem_def split: option.splits)
qed

lemma addItem_appended:
  assumes "\<not> (quantity item \<le> 0 \<or> price item < 0)" "id' item \<notin> id' ` set (items this)"
  shows "addItem this item = (this\<lparr>items := items this @ [item]\<rparr>, [])"
proof -
  have "\<forall>x \<in> set (items this). id' x \<noteq> id' item"
    using assms(2) by (metis image_eqI)
  then have "find (\<lambda>i. id' i = id' item) (items this) = None"
    by (simp add: find_None_iff)
  then show ?thesis using assms by (simp add: addItem_def)
qed

lemma validItem_accepted: "validItem item \<Longrightarrow> \<not> (quantity item \<le> 0 \<or> price item < 0)"
  by (auto simp: validItem_def dest: number_less_not_le number_le_not_less)

lemma addItem_uniqueIds:
  assumes "uniqueIds (items this)"
  shows "uniqueIds (items (fst (addItem this item)))"
proof (cases "quantity item \<le> 0 \<or> price item < 0")
  case True
  then show ?thesis using assms by (simp add: addItem_rejected)
next
  case False
  show ?thesis
  proof (cases "find (\<lambda>i. id' i = id' item) (items this)")
    case None
    then have "id' item \<notin> id' ` set (items this)"
      by (auto simp: find_None_iff)
    then show ?thesis
      using assms False None by (auto simp: addItem_def uniqueIds_def)
  next
    case (Some e)
    then show ?thesis
      using assms False by (simp add: addItem_def uniqueIds_def updateFirst_map_id)
  qed
qed

lemma splice1_uniqueIds:
  assumes "uniqueIds xs"
  shows "uniqueIds (splice1 k xs)"
proof -
  have d: "distinct (map id' xs)" using assms by (simp add: uniqueIds_def)
  have "distinct (take n ys @ drop (Suc n) ys)" if "distinct ys" for n and ys :: "string list"
    using that by (simp add: set_take_disj_set_drop_if_distinct)
  from this [OF d, of "nat k"] have "distinct (map id' (splice1 k xs))"
    by (simp add: splice1_def take_map drop_map)
  then show ?thesis by (simp add: uniqueIds_def)
qed

lemma removeItem_uniqueIds:
  "uniqueIds (items this) \<Longrightarrow> uniqueIds (items (fst (removeItem this itemId)))"
  by (simp add: removeItem_def Let_def splice1_uniqueIds)

lemma processOrder_items: "items (objectAfter (processOrder this w)) = items this"
  by (subst processOrder_frame) simp

lemma step_uniqueIds:
  "uniqueIds (items (fst c)) \<Longrightarrow> uniqueIds (items (fst (step op c)))"
proof (cases c)
  case (Pair this w)
  assume "uniqueIds (items (fst c))"
  with Pair have wf: "uniqueIds (items this)" by simp
  show ?thesis
  proof (cases op)
    case ProcessOrder
    then show ?thesis
      using wf Pair processOrder_items [of this w]
      by (cases "processOrder this w") (simp add: objectAfter_def)
  qed (use wf Pair in \<open>simp_all add: addItem_uniqueIds removeItem_uniqueIds applyDiscount_items\<close>)
qed

lemma run_uniqueIds:
  "uniqueIds (items (fst c)) \<Longrightarrow> uniqueIds (items (fst (run ops c)))"
  by (induction ops arbitrary: c) (simp_all add: step_uniqueIds)

text \<open>
  C7. The claim holds for the three branches of \<open>addItem\<close> and for the ids, but not for
  its invariant. The guard of line 29 rejects an item when \<open>quantity <= 0\<close> or \<open>price < 0\<close>
  is true, and both comparisons are false on \<open>NaN\<close>: an item whose quantity and price are
  \<open>NaN\<close> is stored in the empty order, without a warning, although its quantity is not
  above 0 and its price is not at least 0.
\<close>

theorem C7_addItem_NaN:
  "quantity nanItem = NaN \<and> price nanItem = NaN \<and>
   addItem (demoOrder []) nanItem = (demoOrder [nanItem], []) \<and>
   \<not> quantity nanItem > 0 \<and> \<not> price nanItem \<ge> 0 \<and> \<not> validItem nanItem"
  by (simp add: addItem_def demoOrder_def nanItem_def validItem_def zero_number_def)

text \<open>
  With such an item the total is \<open>NaN\<close>, which is neither at most 0 nor above 0: when the
  item is in stock, \<open>processOrder\<close> charges nothing, leaves the order pending, sends the
  confirmation and returns true.
\<close>

lemma processOrder_NaN_total:
  "calculateTotal (stockedOrder [nanItem]) = NaN \<and>
   processOrder (stockedOrder [nanItem]) 0 =
     (True, stockedOrder [nanItem],
      [CheckStock ''x'' NaN,
       SendOrderConfirmation ''test@example.com''
         \<lparr> detailsOrderId = ''order-1'', detailsItems = [nanItem],
           detailsTotalAmount = NaN, detailsStatus = pending \<rparr>],
      2)"
proof -
  have total: "calculateTotal (stockedOrder [nanItem]) = NaN"
    by (simp add: calculateTotal_def toFixed2_def stockedOrder_def demoOrder_def nanItem_def
                  zero_number_def)
  have "processOrder (stockedOrder [nanItem]) 0 =
     (True, stockedOrder [nanItem],
      [CheckStock ''x'' NaN,
       SendOrderConfirmation ''test@example.com''
         \<lparr> detailsOrderId = ''order-1'', detailsItems = [nanItem],
           detailsTotalAmount = NaN, detailsStatus = pending \<rparr>],
      2)"
    by (simp add: processOrder_def fulfilOrder_def calculateTotal_def toFixed2_def Let_def
                  zero_number_def stockedOrder_def demoOrder_def demoNotifier_def nanItem_def)
  with total show ?thesis by simp
qed

text \<open>
  C8. \<open>applyDiscount\<close> returns true exactly when the code is \<open>SALE10\<close> and no discount is
  applied yet; then it sets \<open>discountApplied\<close>, and otherwise it returns false and changes
  nothing. Of two calls with \<open>SALE10\<close> on a fresh order the first returns true and the
  second returns false and leaves the object, and with it the computed total, as the first
  call left them.
\<close>

theorem C8_applyDiscount:
  "(fst (applyDiscount this discountCode) \<longleftrightarrow>
      discountCode = ''SALE10'' \<and> \<not> discountApplied this) \<and>
   (fst (applyDiscount this discountCode) \<longrightarrow>
      snd (applyDiscount this discountCode) = this\<lparr>discountApplied := True\<rparr>) \<and>
   (\<not> fst (applyDiscount this discountCode) \<longrightarrow>
      snd (applyDiscount this discountCode) = this) \<and>
   (\<not> discountApplied this \<longrightarrow>
      applyDiscount this ''SALE10'' = (True, this\<lparr>discountApplied := True\<rparr>) \<and>
      applyDiscount (this\<lparr>discountApplied := True\<rparr>) ''SALE10'' =
        (False, this\<lparr>discountApplied := True\<rparr>) \<and>
      calculateTotal (snd (applyDiscount (snd (applyDiscount this ''SALE10'')) ''SALE10'')) =
        calculateTotal (snd (applyDiscount this ''SALE10'')))"
  by (simp add: applyDiscount_def)

lemma demo_total_discounted:
  "calculateTotal (demoOrder [mkItem ''prod1'' 50 2, mkItem ''prod2'' 75 1]\<lparr>discountApplied := True\<rparr>) =
     Finite (315 / 2)"
  by code_simp

theorem C8_applyDiscount_witness:
  "\<not> discountApplied (demoOrder [mkItem ''prod1'' 50 2, mkItem ''prod2'' 75 1]) \<and>
   fst (applyDiscount (demoOrder [mkItem ''prod1'' 50 2, mkItem ''prod2'' 75 1]) ''SALE10'') \<and>
   \<not> fst (applyDiscount (demoOrder [mkItem ''prod1'' 50 2, mkItem ''prod2'' 75 1]) ''INVALIDCODE'') \<and>
   snd (applyDiscount (demoOrder [mkItem ''prod1'' 50 2, mkItem ''prod2'' 75 1]) ''INVALIDCODE'') =
     demoOrder [mkItem ''prod1'' 50 2, mkItem ''prod2'' 75 1] \<and>
   calculateTotal (snd (applyDiscount (snd (applyDiscount
       (demoOrder [mkItem ''prod1'' 50 2, mkItem ''prod2'' 75 1]) ''SALE10'')) ''SALE10'')) =
     Finite (315 / 2)"
proof -
  let ?order = "demoOrder [mkItem ''prod1'' 50 2, mkItem ''prod2'' 75 1]"
  have fresh: "\<not> discountApplied ?order"
    by (simp add: demoOrder_def)
  note valid = C8_applyDiscount [of ?order "''SALE10''"]
  note invalid = C8_applyDiscount [of ?order "''INVALIDCODE''"]
  have once: "snd (applyDiscount ?order ''SALE10'') = ?order\<lparr>discountApplied := True\<rparr>"
    using fresh valid by simp
  have "calculateTotal (snd (applyDiscount (snd (applyDiscount ?order ''SALE10'')) ''SALE10'')) =
          calculateTotal (snd (applyDiscount ?order ''SALE10''))"
    using fresh valid by blast
  then have twice: "calculateTotal (snd (applyDiscount (snd (applyDiscount ?order ''SALE10'')) ''SALE10'')) =
                      Finite (315 / 2)"
    by (simp only: once demo_total_discounted)
  have accepted: "fst (applyDiscount ?order ''SALE10'')"
    using fresh valid by blast
  have refused: "\<not> fst (applyDiscount ?order ''INVALIDCODE'')"
    using invalid by simp
  then have same: "snd (applyDiscount ?order ''INVALIDCODE'') = ?order"
    using invalid by blast
  show ?thesis
    using fresh accepted refused same twice by blast
qed

subsection \<open>The total\<close>

text \<open>
  The rounding in the words of the specification yields a number with two decimals that
  is nearest to its argument, and the one of larger magnitude of two nearest ones.
\<close>

lemma specRoundHalfAway2_decimals: "\<exists>n::int. specRoundHalfAway2 x = of_int n / 100"
proof (cases "x < 0")
  case True
  then have "specRoundHalfAway2 x = of_int (- \<lfloor>\<bar>x\<bar> * 100 + 1 / 2\<rfloor>) / 100"
    by (simp add: specRoundHalfAway2_def)
  then show ?thesis by blast
next
  case False
  then have "specRoundHalfAway2 x = of_int (if x = 0 then 0 else \<lfloor>\<bar>x\<bar> * 100 + 1 / 2\<rfloor>) / 100"
    by (simp add: specRoundHalfAway2_def)
  then show ?thesis by blast
qed

lemma specRoundHalfAway2_nearest: "\<bar>specRoundHalfAway2 x - x\<bar> \<le> 1 / 200"
proof -
  let ?n = "\<lfloor>\<bar>x\<bar> * 100 + 1 / 2\<rfloor>"
  have "of_int ?n \<le> \<bar>x\<bar> * 100 + 1 / 2" and "\<bar>x\<bar> * 100 + 1 / 2 < of_int ?n + 1"
    by linarith+
  then have "- (1 / 2) \<le> of_int ?n - \<bar>x\<bar> * 100" and "of_int ?n - \<bar>x\<bar> * 100 \<le> 1 / 2"
    by linarith+
  then have "- (1 / 200) \<le> of_int ?n / 100 - \<bar>x\<bar>" and "of_int ?n / 100 - \<bar>x\<bar> \<le> 1 / 200"
    by linarith+
  then have "\<bar>of_int ?n / 100 - \<bar>x\<bar>\<bar> \<le> 1 / 200"
    unfolding abs_le_iff by linarith
  moreover have "\<bar>specRoundHalfAway2 x - x\<bar> = \<bar>of_int ?n / 100 - \<bar>x\<bar>\<bar>"
    by (cases "x < 0"; cases "x = 0") (simp_all add: specRoundHalfAway2_def floor_eq_iff)
  ultimately show ?thesis by simp
qed

lemma specRoundHalfAway2_tie:
  assumes "\<bar>specRoundHalfAway2 x - x\<bar> = 1 / 200"
  shows "\<bar>x\<bar> < \<bar>specRoundHalfAway2 x\<bar>"
proof -
  let ?n = "\<lfloor>\<bar>x\<bar> * 100 + 1 / 2\<rfloor>"
  have bounds: "of_int ?n \<le> \<bar>x\<bar> * 100 + 1 / 2" "\<bar>x\<bar> * 100 + 1 / 2 < of_int ?n + 1"
    by linarith+
  have x: "x \<noteq> 0"
    using assms by (auto simp: specRoundHalfAway2_def)
  then have mag: "\<bar>specRoundHalfAway2 x\<bar> = of_int ?n / 100"
    by (simp add: specRoundHalfAway2_def abs_mult)
  have "\<bar>specRoundHalfAway2 x - x\<bar> = \<bar>of_int ?n / 100 - \<bar>x\<bar>\<bar>"
    using x by (cases "x < 0") (simp_all add: specRoundHalfAway2_def)
  then have "\<bar>of_int ?n / 100 - \<bar>x\<bar>\<bar> = 1 / 200"
    using assms by simp
  then have "of_int ?n / 100 - \<bar>x\<bar> = 1 / 200"
    using bounds(2) by (simp add: abs_if field_simps split: if_splits)
  then show ?thesis by (simp add: mag)
qed

lemma toFixed2_spec: "\<bar>a\<bar> < 10 ^ 21 \<Longrightarrow> toFixed2 (Finite a) = fl (specRoundHalfAway2 a)"
proof -
  have "\<lfloor>1 / 2 :: rat\<rfloor> = 0" by (simp add: floor_eq_iff)
  then show "\<bar>a\<bar> < 10 ^ 21 \<Longrightarrow> ?thesis"
    by (cases "a < 0"; cases "a = 0") (simp_all add: toFixed2_def specRoundHalfAway2_def)
qed

lemma runningTotal_append:
  "\<not> discountApplied this \<Longrightarrow>
   runningTotal (this\<lparr>items := items this @ [item]\<rparr>) =
     runningTotal this + price item * quantity item"
  by (simp add: runningTotal_def)

text \<open>
  C6 as stated does not hold: the products, the sums and the multiplication by 0.9 are
  each rounded to binary64, so the total that \<open>toFixed\<close> rounds is not the exact one. One
  item of price 1.75 and quantity 1 under the discount totals the binary64 value of 1.57,
  where 1.75 times 0.9 is 1.575 and rounds to 1.58; items of price \<open>2^53\<close> and 1 total
  \<open>2^53\<close>, not \<open>2^53 + 1\<close>. The prices and quantities are binary64 values themselves.
\<close>

theorem C6_counterexample:
  "fl (7 / 4) = Finite (7 / 4) \<and> fl 1 = Finite 1 \<and> fl (2 ^ 53) = Finite (2 ^ 53) \<and>
   calculateTotal (demoOrder [mkItem ''a'' (7 / 4) 1]\<lparr>discountApplied := True\<rparr>) = fl (157 / 100) \<and>
   specTotal [(7 / 4, 1)] True = 158 / 100 \<and>
   fl (157 / 100) \<noteq> fl (158 / 100) \<and>
   fl (157 / 100) \<noteq> Finite (158 / 100) \<and>
   calculateTotal (demoOrder [mkItem ''a'' (2 ^ 53) 1, mkItem ''b'' 1 1]) = Finite (2 ^ 53) \<and>
   specTotal [(2 ^ 53, 1), (1, 1)] False = 2 ^ 53 + 1"
  by (intro conjI; code_simp)

text \<open>
  C6, amended. \<open>calculateTotal\<close> changes nothing. The total it rounds is computed in
  binary64: it is 0 for no items, each further item adds its rounded product to the
  rounded sum so far, and the discount multiplies the sum by the binary64 value of 0.9.
  When that total is finite and below \<open>10^21\<close> in magnitude, the result is the binary64
  value nearest to the exact value of the total rounded to two decimals, ties away from
  zero; every other total is returned as it is.
\<close>

theorem C6_calculateTotal:
  "step CalculateTotal (this, w) = (this, w) \<and>
   (items this = [] \<and> \<not> discountApplied this \<longrightarrow> runningTotal this = 0) \<and>
   (\<not> discountApplied this \<longrightarrow>
      runningTotal (this\<lparr>items := items this @ [item]\<rparr>) =
        runningTotal this + price item * quantity item) \<and>
   (discountApplied this \<longrightarrow>
      runningTotal this = runningTotal (this\<lparr>discountApplied := False\<rparr>) * fl (9 / 10)) \<and>
   (runningTotal this = Finite a \<and> \<bar>a\<bar> < 10 ^ 21 \<longrightarrow>
      calculateTotal this = fl (specRoundHalfAway2 a)) \<and>
   (runningTotal this = Finite a \<and> 10 ^ 21 \<le> \<bar>a\<bar> \<longrightarrow> calculateTotal this = Finite a) \<and>
   (runningTotal this \<in> {NaN, PosInfinity, NegInfinity} \<longrightarrow>
      calculateTotal this = runningTotal this)"
proof -
  have "calculateTotal this = fl (specRoundHalfAway2 a)"
    if "runningTotal this = Finite a" "\<bar>a\<bar> < 10 ^ 21"
    using that by (simp add: calculateTotal_runningTotal toFixed2_spec)
  moreover have "calculateTotal this = Finite a"
    if "runningTotal this = Finite a" "10 ^ 21 \<le> \<bar>a\<bar>"
    using that by (simp add: calculateTotal_runningTotal toFixed2_def)
  moreover have "calculateTotal this = runningTotal this"
    if "runningTotal this \<in> {NaN, PosInfinity, NegInfinity}"
    using that by (auto simp: calculateTotal_runningTotal toFixed2_def)
  moreover have "runningTotal this = 0" if "items this = []" "\<not> discountApplied this"
    using that by (simp add: runningTotal_def)
  moreover have "runningTotal this = runningTotal (this\<lparr>discountApplied := False\<rparr>) * fl (9 / 10)"
    if "discountApplied this"
    using that by (simp add: runningTotal_def)
  ultimately show ?thesis
    using runningTotal_append [of this item] by simp
qed

text \<open>
  The example of the specification: the binary64 values written 33.333 and 66.666 sum to
  the one written 99.999, and the total is 100.
\<close>

lemma specExample_runningTotal:
  "runningTotal specExample = Finite (3518402024511111 / 35184372088832) \<and>
   fl (99999 / 1000) = Finite (3518402024511111 / 35184372088832) \<and>
   fl (specRoundHalfAway2 (3518402024511111 / 35184372088832)) = Finite 100"
  by (intro conjI; code_simp)

lemma bigOrder_runningTotal:
  "runningTotal (demoOrder [mkItem ''a'' (10 ^ 21) 1]) = Finite (10 ^ 21)"
  by code_simp

theorem C6_calculateTotal_witness:
  "step CalculateTotal (specExample, 0) = (specExample, 0) \<and>
   runningTotal specExample = Finite (3518402024511111 / 35184372088832) \<and>
   \<bar>3518402024511111 / 35184372088832\<bar> < (10::rat) ^ 21 \<and>
   calculateTotal specExample = Finite 100 \<and>
   runningTotal (demoOrder []) = 0 \<and>
   runningTotal (demoOrder [mkItem ''a'' (7 / 4) 1]) = 0 + Finite (7 / 4) * Finite 1 \<and>
   runningTotal (demoOrder [mkItem ''a'' (7 / 4) 1]\<lparr>discountApplied := True\<rparr>) =
     runningTotal (demoOrder [mkItem ''a'' (7 / 4) 1]) * fl (9 / 10) \<and>
   calculateTotal (demoOrder [mkItem ''a'' (10 ^ 21) 1]) = Finite (10 ^ 21) \<and>
   runningTotal (demoOrder [nanItem]) = NaN \<and>
   calculateTotal (demoOrder [nanItem]) = NaN"
proof -
  let ?a = "mkItem ''a'' (7 / 4) 1"
  have small: "\<bar>3518402024511111 / 35184372088832\<bar> < (10::rat) ^ 21"
    by simp
  have example: "step CalculateTotal (specExample, 0) = (specExample, 0) \<and>
                 calculateTotal specExample = Finite 100"
    using small specExample_runningTotal
      C6_calculateTotal [of specExample 0 ?a "3518402024511111 / 35184372088832"]
    by simp
  have empty: "runningTotal (demoOrder []) = 0"
    using C6_calculateTotal [of "demoOrder []" 0 ?a 0] by (simp add: demoOrder_def)
  have "runningTotal (demoOrder []\<lparr>items := items (demoOrder []) @ [?a]\<rparr>) =
          runningTotal (demoOrder []) + price ?a * quantity ?a"
    using C6_calculateTotal [of "demoOrder []" 0 ?a 0] by (simp add: demoOrder_def)
  then have one: "runningTotal (demoOrder [?a]) = 0 + Finite (7 / 4) * Finite 1"
    by (simp add: empty) (simp add: demoOrder_def mkItem_def)
  have discounted: "runningTotal (demoOrder [?a]\<lparr>discountApplied := True\<rparr>) =
                      runningTotal (demoOrder [?a]) * fl (9 / 10)"
    using C6_calculateTotal [of "demoOrder [?a]\<lparr>discountApplied := True\<rparr>" 0 ?a 0]
    by (simp add: demoOrder_def)
  have big: "calculateTotal (demoOrder [mkItem ''a'' (10 ^ 21) 1]) = Finite (10 ^ 21)"
    using bigOrder_runningTotal
      C6_calculateTotal [of "demoOrder [mkItem ''a'' (10 ^ 21) 1]" 0 ?a "10 ^ 21"]
    by simp
  have nan: "runningTotal (demoOrder [nanItem]) = NaN"
    by (simp add: runningTotal_def demoOrder_def nanItem_def zero_number_def)
  then have "calculateTotal (demoOrder [nanItem]) = NaN"
    using C6_calculateTotal [of "demoOrder [nanItem]" 0 ?a 0] by simp
  then show ?thesis
    using small specExample_runningTotal example empty one discounted big nan by simp
qed

subsection \<open>The payment status\<close>

lemma addItem_status: "paymentStatus (fst (addItem this item)) = paymentStatus this"
  by (simp add: addItem_def split: option.splits)

lemma removeItem_status: "paymentStatus (fst (removeItem this itemId)) = paymentStatus this"
  by (simp add: removeItem_def Let_def)

lemma processOrder_status:
  "paymentStatus (objectAfter (processOrder this w)) \<in> {paymentStatus this, paid, failed}"
proof -
  have f: "fulfilOrder s t v = (r, s', evs, v') \<Longrightarrow> s' = s"
    for s :: "'a OrderProcessor" and t v r s' evs v'
    using fulfilOrder_object [of s t v] by simp
  show ?thesis
    by (auto simp: processOrder_def objectAfter_def Let_def dest!: f
             split: prod.splits option.splits)
qed

lemma step_status:
  "paymentStatus (fst (step op (this, w))) \<in> {paymentStatus this, paid, failed}"
proof (cases op)
  case ProcessOrder
  then show ?thesis
    using processOrder_status [of this w]
    by (cases "processOrder this w") (simp add: objectAfter_def)
qed (simp_all add: addItem_status removeItem_status applyDiscount_status)

lemma step_status_other:
  "op \<noteq> ProcessOrder \<Longrightarrow> paymentStatus (fst (step op (this, w))) = paymentStatus this"
  by (cases op) (simp_all add: addItem_status removeItem_status applyDiscount_status)

lemma run_not_pending:
  "paymentStatus (fst c) \<noteq> pending \<Longrightarrow> paymentStatus (fst (run ops c)) \<noteq> pending"
proof (induction ops arbitrary: c)
  case Nil
  then show ?case by simp
next
  case (Cons op ops)
  obtain this w where c: "c = (this, w)" by (cases c)
  have "paymentStatus (fst (step op c)) \<noteq> pending"
    using Cons.prems step_status [of op this w] c by auto
  then show ?case using Cons.IH by simp
qed

lemma run_status_other:
  "ProcessOrder \<notin> set ops \<Longrightarrow> paymentStatus (fst (run ops c)) = paymentStatus (fst c)"
proof (induction ops arbitrary: c)
  case Nil
  then show ?case by simp
next
  case (Cons op ops)
  obtain this w where c: "c = (this, w)" by (cases c)
  have "paymentStatus (fst (step op c)) = paymentStatus (fst c)"
    using Cons.prems step_status_other [of op this w] c by auto
  then show ?case using Cons by simp
qed

text \<open>
  C4 as stated does not hold: \<open>processOrder\<close> does not look at \<open>paymentStatus\<close> before it
  runs, so a second call assigns the status again. In the environment above an order is
  paid, then fails after an item that is out of stock is added, then is paid once more
  after that item is removed.
\<close>

theorem C4_counterexample:
  "newOrderProcessor ''test@example.com'' demoInventory demoGateway demoNotifier ''order-1'' =
     Inr (demoOrder []) \<and>
   paymentStatus (fst (run [AddItem (mkItem ''a'' 10 1), ProcessOrder] (demoOrder [], 0))) = paid \<and>
   paymentStatus (fst (run [AddItem (mkItem ''a'' 10 1), ProcessOrder,
                            AddItem (mkItem ''b'' 20 10), ProcessOrder] (demoOrder [], 0))) = failed \<and>
   paymentStatus (fst (run [AddItem (mkItem ''a'' 10 1), ProcessOrder,
                            AddItem (mkItem ''b'' 20 10), ProcessOrder,
                            RemoveItem ''b'', ProcessOrder] (demoOrder [], 0))) = paid"
proof (intro conjI)
  show "newOrderProcessor ''test@example.com'' demoInventory demoGateway demoNotifier ''order-1'' =
          Inr (demoOrder [])"
    by (simp add: newOrderProcessor_def demoOrder_def)
qed code_simp+

text \<open>
  C4, amended. A new object is pending. Every operation other than \<open>processOrder\<close> leaves
  \<open>paymentStatus\<close> as it is, so that paid and failed are final through every sequence of
  operations without a further \<open>processOrder\<close>; \<open>processOrder\<close> leaves the status as it
  is or sets it to paid or failed. Hence, through any sequence of operations, an object
  that is paid or failed never becomes pending again.
\<close>

theorem C4_status_transitions:
  "(op \<noteq> ProcessOrder \<longrightarrow> paymentStatus (fst (step op (this, w))) = paymentStatus this) \<and>
   paymentStatus (fst (step op (this, w))) \<in> {paymentStatus this, paid, failed} \<and>
   (ProcessOrder \<notin> set ops \<longrightarrow>
      paymentStatus (fst (run ops (this, w))) = paymentStatus this) \<and>
   (paymentStatus this \<noteq> pending \<longrightarrow> paymentStatus (fst (run ops' (this, w))) \<noteq> pending) \<and>
   (newOrderProcessor email inventory gateway notifier uuid = Inr this0 \<longrightarrow>
      paymentStatus this0 = pending)"
proof -
  have "paymentStatus this0 = pending"
    if "newOrderProcessor email inventory gateway notifier uuid = Inr this0"
    using that by (auto simp: newOrderProcessor_def split: if_splits)
  moreover have "paymentStatus (fst (run ops' (this, w))) \<noteq> pending" if "paymentStatus this \<noteq> pending"
    using run_not_pending [of "(this, w)" ops'] that by simp
  moreover have "paymentStatus (fst (run ops (this, w))) = paymentStatus this"
    if "ProcessOrder \<notin> set ops"
    using run_status_other [OF that, of "(this, w)"] by simp
  ultimately show ?thesis
    using step_status [of op this w] step_status_other [of op this w] by blast
qed

theorem C4_status_transitions_witness:
  "ApplyDiscount ''SALE10'' \<noteq> ProcessOrder \<and>
   paymentStatus (fst (step (ApplyDiscount ''SALE10'')
     (demoOrder [mkItem ''a'' 10 1]\<lparr>paymentStatus := failed\<rparr>, 0))) = failed \<and>
   ProcessOrder \<notin> set [RemoveItem ''a'', AddItem (mkItem ''b'' 20 1), GetOrderStatus] \<and>
   paymentStatus (fst (run [RemoveItem ''a'', AddItem (mkItem ''b'' 20 1), GetOrderStatus]
     (demoOrder [mkItem ''a'' 10 1]\<lparr>paymentStatus := failed\<rparr>, 0))) = failed \<and>
   paymentStatus (demoOrder [mkItem ''a'' 10 1]\<lparr>paymentStatus := failed\<rparr>) \<noteq> pending \<and>
   paymentStatus (fst (run [AddItem (mkItem ''b'' 20 1), ProcessOrder]
     (demoOrder [mkItem ''a'' 10 1]\<lparr>paymentStatus := failed\<rparr>, 0))) \<noteq> pending \<and>
   newOrderProcessor ''test@example.com'' demoInventory demoGateway demoNotifier ''order-1'' =
     Inr (demoOrder []) \<and>
   paymentStatus (demoOrder []) = pending"
proof -
  have new: "newOrderProcessor ''test@example.com'' demoInventory demoGateway demoNotifier ''order-1'' =
               Inr (demoOrder [])"
    by (simp add: newOrderProcessor_def demoOrder_def)
  have status: "paymentStatus (demoOrder [mkItem ''a'' 10 1]\<lparr>paymentStatus := failed\<rparr>) = failed"
    by simp
  show ?thesis
    using new status
      C4_status_transitions [of "ApplyDiscount ''SALE10''"
        "demoOrder [mkItem ''a'' 10 1]\<lparr>paymentStatus := failed\<rparr>" 0
        "[RemoveItem ''a'', AddItem (mkItem ''b'' 20 1), GetOrderStatus]"
        "[AddItem (mkItem ''b'' 20 1), ProcessOrder]" "''test@example.com''" demoInventory
        demoGateway demoNotifier "''order-1''" "demoOrder []"]
    by simp
qed

end
